theory Spec2Isabelle
  imports Main
begin

section \<open>The account service of src/auth/auth.service.ts\<close>

text \<open>
  The class \<^verbatim>\<open>AuthService\<close> orchestrates three collaborators that are libraries, not
  code of the repository: the TypeORM repository of users, the bcrypt password hasher and
  the JWT signer. The service methods are embedded as state-passing functions over a
  \<open>world\<close>: the rows of the user table, the next identity the table will hand out, and
  the chronological list of the collaborator calls made so far. The pure collaborators
  (hash, compare, sign, the role enumeration) are the fields of a record \<open>deps\<close> that
  every method takes, as the constructor of the class takes its dependencies.
  Calls to \<^verbatim>\<open>console.log\<close> are left out. A collaborator is taken to answer every call
  except \<^verbatim>\<open>save\<close>, the one call whose failure the service handles
  (the \<^verbatim>\<open>try\<close>/\<^verbatim>\<open>catch\<close> of \<^verbatim>\<open>signUp\<close>).
\<close>

subsection \<open>Data\<close>

text \<open>
  The entity \<^verbatim>\<open>User\<close>, by the fields the service reads and writes. The identity is
  absent (\<open>None\<close>, JavaScript's \<^verbatim>\<open>undefined\<close>) until the table assigns one. The role is
  the value of a member of the enumeration, or absent when an index into the enumeration
  found no member.
\<close>

record User =
  uid :: "nat option"
  username :: string
  password :: string
  email :: string
  tmdb_key :: string
  role :: "string option"

text \<open>The interface \<^verbatim>\<open>JwtPayload\<close>, as \<^verbatim>\<open>createToken\<close> builds it (lines 115-121).\<close>

record JwtPayload =
  p_id :: "nat option"
  p_username :: string
  p_email :: string
  p_role :: "string option"
  p_tmdb_key :: string

text \<open>The input objects, by the fields the methods take from them.\<close>

record SignUpCredentialsDto =
  su_username :: string
  su_password :: string
  su_email :: string
  su_tmdb_key :: string
  su_role :: "string option"

record SignInCredentialsDto =
  si_email :: string
  si_password :: string

record RefreshTokenDto =
  rt_id :: "nat option"
  rt_username :: string
  rt_email :: string
  rt_role :: "string option"
  rt_tmdb_key :: string

record CheckEmailDto =
  ce_email :: string

text \<open>
  Modelled from the spec: the class \<^verbatim>\<open>UpdateCredentialDto\<close> (src/auth/dto/update-user.dto.ts
  is not among the sources). The spec calls it a partial update "(including role)" of
  "role and other mutable fields". The method spreads every field of the object into the
  update (line 97) and converts its role as \<^verbatim>\<open>signUp\<close> converts the role of the
  sign-up (lines 45 and 98). The model gives it the fields of the sign-up, each optional.
\<close>

record UpdateCredentialDto =
  up_role :: "string option"
  up_username :: "string option"
  up_password :: "string option"
  up_email :: "string option"
  up_tmdb_key :: "string option"

text \<open>A JavaScript value, as far as the \<^verbatim>\<open>code\<close> property of a thrown error needs it.\<close>

datatype js_value = JUndefined | JNum int | JStr string

datatype thrown = Thrown (code: js_value)

text \<open>The exceptions of \<^verbatim>\<open>@nestjs/common\<close> the service throws, with their messages.\<close>

datatype HttpException =
    ConflictException string
  | InternalServerErrorException
  | NotFoundException string
  | UnauthorizedException string

type_synonym AccessToken = string

text \<open>The collaborator calls the service makes, as they are recorded in the world.\<close>

datatype call =
    GenSalt | Hash | Compare | JwtSign
  | RepoCreate | RepoSave | RepoFindOne | RepoUpdate

record world =
  rows :: "User list"
  next_id :: nat
  calls :: "call list"

text \<open>
  The dependencies. \<open>UserRole\<close> is the enumeration object indexed by a key
  (\<^verbatim>\<open>UserRole[role]\<close>, absent for a key that names no member) and \<open>UserRole_USER\<close> its
  member \<^verbatim>\<open>UserRole.USER\<close>; src/auth/enums/user-role.enum.ts is not among the sources, so
  both are parameters. \<open>dup_code\<close> is the \<^verbatim>\<open>code\<close> the table's driver puts on the error
  of a uniqueness violation. \<open>findOne_where_user\<close> is the answer of the repository
  to the query \<^verbatim>\<open>{ where: { user } }\<close> of \<^verbatim>\<open>getUser\<close>.
\<close>

record deps =
  bcrypt_hash :: "string \<Rightarrow> string \<Rightarrow> string"
  bcrypt_compare :: "string \<Rightarrow> string \<Rightarrow> bool"
  jwt_sign :: "JwtPayload \<Rightarrow> AccessToken"
  UserRole :: "string \<Rightarrow> string option"
  UserRole_USER :: string
  dup_code :: js_value
  findOne_where_user :: "User list \<Rightarrow> User \<Rightarrow> User option"

subsection \<open>The collaborators\<close>

definition record_call :: "call \<Rightarrow> world \<Rightarrow> world" where
  "record_call c w = w\<lparr>calls := calls w @ [c]\<rparr>"

text \<open>\<^verbatim>\<open>userRepository.findOne({ where: { email } })\<close>: the first row with that email.\<close>

definition findOne_email :: "world \<Rightarrow> string \<Rightarrow> User option \<times> world" where
  "findOne_email w e = (find (\<lambda>u. email u = e) (rows w), record_call RepoFindOne w)"

text \<open>
  Modelled from the spec: the uniqueness constraints of the entity \<^verbatim>\<open>User\<close>
  (src/auth/entities/user.entity.ts is not among the sources), "username and email are
  unique across all records": a record violates them when a row has its username or a
  row has its email.
\<close>

definition violates_unique :: "User list \<Rightarrow> User \<Rightarrow> bool" where
  "violates_unique rs user =
     (\<exists>r \<in> set rs. username r = username user \<or> email r = email user)"

text \<open>
  \<^verbatim>\<open>userRepository.save(user)\<close> for an entity that has no identity yet. The call fails
  with the injected failure \<open>fault\<close> when there is one (any failure of the persistence
  layer that is not decided by the table's content), and with an error whose code is
  \<open>dup_code\<close> when the record violates the uniqueness constraints. Otherwise the row is
  appended with the next identity.
\<close>

definition save :: "deps \<Rightarrow> thrown option \<Rightarrow> world \<Rightarrow> User \<Rightarrow> (thrown + User) \<times> world" where
  "save d fault w user =
     (let w1 = record_call RepoSave w in
      case fault of
        Some e \<Rightarrow> (Inl e, w1)
      | None \<Rightarrow>
          if violates_unique (rows w) user
          then (Inl (Thrown (dup_code d)), w1)
          else (let saved = user\<lparr>uid := Some (next_id w)\<rparr>
                in (Inr saved, w1\<lparr>rows := rows w @ [saved], next_id := Suc (next_id w)\<rparr>)))"

text \<open>
  The object literal of lines 96-99, \<^verbatim>\<open>{ ...updateCredentialDto, role: UserRole[role] }\<close>,
  written onto a row: a field the object carries replaces the column, and the role is
  always written, with the indexed member.
\<close>

definition apply_update :: "deps \<Rightarrow> UpdateCredentialDto \<Rightarrow> User \<Rightarrow> User" where
  "apply_update d dto u =
     u\<lparr>username := (case up_username dto of Some x \<Rightarrow> x | None \<Rightarrow> username u),
       password := (case up_password dto of Some x \<Rightarrow> x | None \<Rightarrow> password u),
       email := (case up_email dto of Some x \<Rightarrow> x | None \<Rightarrow> email u),
       tmdb_key := (case up_tmdb_key dto of Some x \<Rightarrow> x | None \<Rightarrow> tmdb_key u),
       role := (case up_role dto of None \<Rightarrow> None | Some r \<Rightarrow> UserRole d r)\<rparr>"

text \<open>\<^verbatim>\<open>userRepository.update(id, partial)\<close>: every row with that identity is rewritten.\<close>

definition update :: "deps \<Rightarrow> world \<Rightarrow> nat option \<Rightarrow> UpdateCredentialDto \<Rightarrow> world" where
  "update d w i dto =
     (record_call RepoUpdate w)
       \<lparr>rows := map (\<lambda>u. if uid u = i then apply_update d dto u else u) (rows w)\<rparr>"

subsection \<open>The service\<close>

text \<open>\<^verbatim>\<open>createToken\<close>, lines 114-125.\<close>

definition payload_of :: "User \<Rightarrow> JwtPayload" where
  "payload_of user =
     \<lparr>p_id = uid user, p_username = username user, p_email = email user,
      p_role = role user, p_tmdb_key = tmdb_key user\<rparr>"

definition createToken :: "deps \<Rightarrow> User \<Rightarrow> world \<Rightarrow> AccessToken \<times> world" where
  "createToken d user w = (jwt_sign d (payload_of user), record_call JwtSign w)"

text \<open>
  The entity of lines 40-46. \<^verbatim>\<open>role ? UserRole[role] : UserRole.USER\<close>: an absent role
  and the empty string are falsy.
\<close>

definition new_user :: "deps \<Rightarrow> string \<Rightarrow> SignUpCredentialsDto \<Rightarrow> User" where
  "new_user d hashedPassword dto =
     \<lparr>uid = None, username = su_username dto, password = hashedPassword,
      email = su_email dto, tmdb_key = su_tmdb_key dto,
      role = (case su_role dto of
                None \<Rightarrow> Some (UserRole_USER d)
              | Some r \<Rightarrow> if r = [] then Some (UserRole_USER d) else UserRole d r)\<rparr>"

text \<open>
  \<^verbatim>\<open>signUp\<close>, lines 30-63. \<open>salt\<close> is what \<^verbatim>\<open>bcrypt.genSalt()\<close> returns this time and
  \<open>fault\<close> the failure of the persistence layer this time, if any.
\<close>

definition signUp ::
  "deps \<Rightarrow> string \<Rightarrow> thrown option \<Rightarrow> world \<Rightarrow> SignUpCredentialsDto
     \<Rightarrow> (HttpException + AccessToken) \<times> world" where
  "signUp d salt fault w dto =
     (let w1 = record_call GenSalt w;
          hashedPassword = bcrypt_hash d (su_password dto) salt;
          w2 = record_call Hash w1;
          user = new_user d hashedPassword dto;
          w3 = record_call RepoCreate w2;
          (accessToken, w4) = createToken d user w3
      in case save d fault w4 user of
           (Inr thisuser, w5) \<Rightarrow> (Inr accessToken, w5)
         | (Inl error, w5) \<Rightarrow>
             (if code error = JStr ''11000''
              then (Inl (ConflictException ''Username already exists''), w5)
              else (Inl InternalServerErrorException, w5)))"

text \<open>\<^verbatim>\<open>signIn\<close>, lines 66-80. \<^verbatim>\<open>&&\<close> does not call the comparison for an absent row.\<close>

definition signIn ::
  "deps \<Rightarrow> world \<Rightarrow> SignInCredentialsDto \<Rightarrow> (HttpException + AccessToken) \<times> world" where
  "signIn d w dto =
     (let (user, w1) = findOne_email w (si_email dto) in
      case user of
        None \<Rightarrow> (Inl (UnauthorizedException ''Please check your login credentials''), w1)
      | Some u \<Rightarrow>
          (let w2 = record_call Compare w1 in
           if bcrypt_compare d (si_password dto) (password u)
           then (let (accessToken, w3) = createToken d u w2 in (Inr accessToken, w3))
           else (Inl (UnauthorizedException ''Please check your login credentials''), w2)))"

text \<open>
  \<^verbatim>\<open>refreshToken\<close>, lines 83-86. \<^verbatim>\<open>refreshTokenDto as User\<close> is a type assertion: the
  object keeps its own fields. It has no password; the model fills that field with the
  empty string.
\<close>

definition as_User :: "RefreshTokenDto \<Rightarrow> User" where
  "as_User dto =
     \<lparr>uid = rt_id dto, username = rt_username dto, password = [],
      email = rt_email dto, tmdb_key = rt_tmdb_key dto, role = rt_role dto\<rparr>"

definition refreshToken ::
  "deps \<Rightarrow> world \<Rightarrow> RefreshTokenDto \<Rightarrow> (HttpException + AccessToken) \<times> world" where
  "refreshToken d w dto =
     (let (accessToken, w1) = createToken d (as_User dto) w in (Inr accessToken, w1))"

text \<open>\<^verbatim>\<open>checkEmail\<close>, lines 88-91.\<close>

definition checkEmail :: "deps \<Rightarrow> world \<Rightarrow> CheckEmailDto \<Rightarrow> bool \<times> world" where
  "checkEmail d w dto =
     (let (user, w1) = findOne_email w (ce_email dto) in
      ((case user of Some u \<Rightarrow> True | None \<Rightarrow> False), w1))"

text \<open>\<^verbatim>\<open>updateUser\<close>, lines 94-102.\<close>

definition updateUser ::
  "deps \<Rightarrow> world \<Rightarrow> UpdateCredentialDto \<Rightarrow> User \<Rightarrow> (HttpException + AccessToken) \<times> world" where
  "updateUser d w updateCredentialDto user =
     (let w1 = update d w (uid user) updateCredentialDto;
          (accessToken, w2) = createToken d user w1
      in (Inr accessToken, w2))"

text \<open>\<^verbatim>\<open>getUser\<close>, lines 104-111. The message quotes the username of the argument.\<close>

definition getUser :: "deps \<Rightarrow> world \<Rightarrow> User \<Rightarrow> (HttpException + User) \<times> world" where
  "getUser d w user =
     (let existUser = findOne_where_user d (rows w) user;
          w1 = record_call RepoFindOne w
      in case existUser of
           None \<Rightarrow>
             (Inl (NotFoundException
                (''User '' @ [CHR 0x22] @ username user @ [CHR 0x22] @ '' not found!'')), w1)
         | Some found \<Rightarrow> (Inr user, w1))"

subsection \<open>Concrete collaborators for the checks at concrete inputs\<close>

text \<open>
  A hasher that prefixes the password with a marker and the salt, a comparison that
  accepts exactly the hashes of the password under the salt \<open>s1\<close>, a signer that
  lists the five fields of the payload, a two-member string enumeration, and a
  repository that answers the query of \<open>getUser\<close> with the first row of the same
  username.
\<close>

definition show_id :: "nat option \<Rightarrow> string" where
  "show_id i = (case i of None \<Rightarrow> ''undefined'' | Some n \<Rightarrow> CHR ''#'' # replicate n (CHR ''i''))"

definition show_role :: "string option \<Rightarrow> string" where
  "show_role r = (case r of None \<Rightarrow> ''undefined'' | Some s \<Rightarrow> s)"

definition demo :: deps where
  "demo =
     \<lparr>bcrypt_hash = (\<lambda>p s. ''$'' @ s @ ''$'' @ p),
      bcrypt_compare = (\<lambda>p h. h = ''$s1$'' @ p),
      jwt_sign = (\<lambda>p. show_id (p_id p) @ ''.'' @ p_username p @ ''.'' @ p_email p
                        @ ''.'' @ show_role (p_role p) @ ''.'' @ p_tmdb_key p),
      UserRole = (\<lambda>k. if k = ''USER'' \<or> k = ''ADMIN'' then Some k else None),
      UserRole_USER = ''USER'',
      dup_code = JStr ''11000'',
      findOne_where_user = (\<lambda>rs u. find (\<lambda>r. username r = username u) rs)\<rparr>"

definition alice_dto :: SignUpCredentialsDto where
  "alice_dto =
     \<lparr>su_username = ''alice'', su_password = ''p@ss1234'', su_email = ''a@x.com'',
      su_tmdb_key = ''k1'', su_role = None\<rparr>"

definition alice :: User where
  "alice =
     \<lparr>uid = Some 0, username = ''alice'', password = ''$s1$p@ss1234'',
      email = ''a@x.com'', tmdb_key = ''k1'', role = Some ''USER''\<rparr>"

definition empty_world :: world where
  "empty_world = \<lparr>rows = [], next_id = 0, calls = []\<rparr>"

definition alice_world :: world where
  "alice_world = \<lparr>rows = [alice], next_id = 1, calls = []\<rparr>"

subsection \<open>Predicates of the properties\<close>

text \<open>
  \<open>taken\<close>: the table holds a row with the username or the email of the sign-up, the
  condition under which \<open>save\<close> reports a uniqueness violation.
\<close>

definition taken :: "world \<Rightarrow> SignUpCredentialsDto \<Rightarrow> bool" where
  "taken w dto = (\<exists>r \<in> set (rows w). username r = su_username dto \<or> email r = su_email dto)"

text \<open>
  \<open>valid_role\<close>: the role of the sign-up is absent, or it is the name of a member of the
  enumeration whose value is that name (a string enumeration, as in the spec's example,
  where the role of the decoded token reads "USER").
  \<open>hashed\<close>: every row's password is an output of the hasher.
  \<open>admin_update\<close>, \<open>profile_update\<close> and \<open>plaintext_update\<close> are updates for
  the concrete checks, and \<open>mongo\<close> is the concrete collaborators with the code of a
  duplicate key as the number 11000, the way the MongoDB driver that the comment of
  line 57 names reports it.
\<close>

definition valid_role :: "deps \<Rightarrow> SignUpCredentialsDto \<Rightarrow> bool" where
  "valid_role d dto =
     (case su_role dto of None \<Rightarrow> True | Some r \<Rightarrow> r \<noteq> [] \<and> UserRole d r = Some r)"

definition hashed :: "deps \<Rightarrow> User list \<Rightarrow> bool" where
  "hashed d us = (\<forall>u \<in> set us. \<exists>pw salt. password u = bcrypt_hash d pw salt)"


definition plaintext_update :: UpdateCredentialDto where
  "plaintext_update =
     \<lparr>up_role = Some ''USER'', up_username = None, up_password = Some ''plain'',
      up_email = None, up_tmdb_key = None\<rparr>"


definition mongo :: deps where
  "mongo = demo\<lparr>dup_code := JNum 11000\<rparr>"

section \<open>Properties\<close>

lemma calls_record_call: "calls (record_call c w) = calls w @ [c]"
  by (simp add: record_call_def)

lemma rows_record_call: "rows (record_call c w) = rows w"
  by (simp add: record_call_def)

lemma next_id_record_call: "next_id (record_call c w) = next_id w"
  by (simp add: record_call_def)

lemma fst_createToken: "fst (createToken d user w) = jwt_sign d (payload_of user)"
  by (simp add: createToken_def)

lemma snd_createToken: "snd (createToken d user w) = record_call JwtSign w"
  by (simp add: createToken_def)

subsection \<open>signIn\<close>

lemma signIn_cases:
  "signIn d w dto =
     (case find (\<lambda>u. email u = si_email dto) (rows w) of
        None \<Rightarrow> (Inl (UnauthorizedException ''Please check your login credentials''),
                 record_call RepoFindOne w)
      | Some u \<Rightarrow>
          if bcrypt_compare d (si_password dto) (password u)
          then (Inr (jwt_sign d (payload_of u)),
                record_call JwtSign (record_call Compare (record_call RepoFindOne w)))
          else (Inl (UnauthorizedException ''Please check your login credentials''),
                record_call Compare (record_call RepoFindOne w)))"
  by (simp add: signIn_def findOne_email_def createToken_def Let_def split: option.splits)

text \<open>
  C1. When the lookup by email returns a record (the first row with that email) and the
  password verifies against the hash stored in that record, \<open>signIn\<close> returns a token
  (the one signed from that record). When no row has that email, and when the lookup
  returns a record whose hash the password does not verify against, \<open>signIn\<close> fails,
  in both cases with the same value: the Unauthorized exception with the same message.
\<close>

theorem signIn_token_or_unauthorized:
  "(\<forall>u. find (\<lambda>r. email r = si_email dto) (rows w) = Some u
        \<and> bcrypt_compare d (si_password dto) (password u)
      \<longrightarrow> fst (signIn d w dto) = Inr (jwt_sign d (payload_of u)))
   \<and> (\<not> (\<exists>r \<in> set (rows w). email r = si_email dto)
      \<longrightarrow> fst (signIn d w dto)
            = Inl (UnauthorizedException ''Please check your login credentials''))
   \<and> (\<forall>u. find (\<lambda>r. email r = si_email dto) (rows w) = Some u
        \<and> \<not> bcrypt_compare d (si_password dto) (password u)
      \<longrightarrow> fst (signIn d w dto)
            = Inl (UnauthorizedException ''Please check your login credentials''))"
proof (intro conjI impI allI)
  assume "\<not> (\<exists>r \<in> set (rows w). email r = si_email dto)"
  then have "find (\<lambda>r. email r = si_email dto) (rows w) = None"
    by (simp add: find_None_iff)
  then show "fst (signIn d w dto)
      = Inl (UnauthorizedException ''Please check your login credentials'')"
    by (simp add: signIn_cases)
qed (simp_all add: signIn_cases)

theorem signIn_token_or_unauthorized_witness:
  "fst (signIn demo alice_world \<lparr>si_email = ''a@x.com'', si_password = ''p@ss1234''\<rparr>)
     = Inr ''#.alice.a@x.com.USER.k1''
   \<and> fst (signIn demo alice_world \<lparr>si_email = ''a@x.com'', si_password = ''wrong''\<rparr>)
     = Inl (UnauthorizedException ''Please check your login credentials'')
   \<and> fst (signIn demo alice_world \<lparr>si_email = ''b@x.com'', si_password = ''p@ss1234''\<rparr>)
     = Inl (UnauthorizedException ''Please check your login credentials'')"
  using
    signIn_token_or_unauthorized
      [of "\<lparr>si_email = ''a@x.com'', si_password = ''p@ss1234''\<rparr>" alice_world demo]
    signIn_token_or_unauthorized
      [of "\<lparr>si_email = ''a@x.com'', si_password = ''wrong''\<rparr>" alice_world demo]
    signIn_token_or_unauthorized
      [of "\<lparr>si_email = ''b@x.com'', si_password = ''p@ss1234''\<rparr>" alice_world demo]
  by (simp add: demo_def alice_world_def alice_def payload_of_def show_id_def show_role_def)

subsection \<open>signUp\<close>

lemma username_new_user: "username (new_user d h dto) = su_username dto"
  and email_new_user: "email (new_user d h dto) = su_email dto"
  and password_new_user: "password (new_user d h dto) = h"
  and uid_new_user: "uid (new_user d h dto) = None"
  by (simp_all add: new_user_def)

lemma signUp_saved:
  "\<not> taken w dto \<Longrightarrow>
   signUp d salt None w dto =
     (Inr (jwt_sign d (payload_of (new_user d (bcrypt_hash d (su_password dto) salt) dto))),
      w\<lparr>rows := rows w @ [(new_user d (bcrypt_hash d (su_password dto) salt) dto)
                            \<lparr>uid := Some (next_id w)\<rparr>],
        next_id := Suc (next_id w),
        calls := calls w @ [GenSalt, Hash, RepoCreate, JwtSign, RepoSave]\<rparr>)"
  by (simp add: signUp_def save_def violates_unique_def createToken_def record_call_def
      taken_def Let_def username_new_user email_new_user)

lemma signUp_duplicate:
  "taken w dto \<Longrightarrow>
   signUp d salt None w dto =
     (if dup_code d = JStr ''11000''
      then Inl (ConflictException ''Username already exists'')
      else Inl InternalServerErrorException,
      w\<lparr>calls := calls w @ [GenSalt, Hash, RepoCreate, JwtSign, RepoSave]\<rparr>)"
  by (simp add: signUp_def save_def violates_unique_def createToken_def record_call_def
      taken_def Let_def username_new_user email_new_user)

lemma signUp_fault:
  "signUp d salt (Some e) w dto =
     (if code e = JStr ''11000''
      then Inl (ConflictException ''Username already exists'')
      else Inl InternalServerErrorException,
      w\<lparr>calls := calls w @ [GenSalt, Hash, RepoCreate, JwtSign, RepoSave]\<rparr>)"
  by (simp add: signUp_def save_def createToken_def record_call_def Let_def)

lemma signUp_success_iff:
  "(\<exists>t. fst (signUp d salt fault w dto) = Inr t) \<longleftrightarrow> fault = None \<and> \<not> taken w dto"
  by (cases fault; cases "taken w dto") (simp_all add: signUp_fault signUp_saved signUp_duplicate)

lemma role_new_user_valid:
  "valid_role d dto \<Longrightarrow>
   role (new_user d h dto) = Some (case su_role dto of None \<Rightarrow> UserRole_USER d | Some r \<Rightarrow> r)"
  by (simp add: valid_role_def new_user_def split: option.splits)

text \<open>
  C2. When the persistence layer does not fail, no row has the username or the email of
  the input, and the role of the input is valid, \<open>signUp\<close> returns the token signed
  from a payload whose username, email and role are those of the input, the role being
  \<^verbatim>\<open>UserRole.USER\<close> when the input has none.
\<close>

theorem signUp_token_matches_input:
  assumes "fault = None" and "\<not> taken w dto" and "valid_role d dto"
  shows "fst (signUp d salt fault w dto) =
           Inr (jwt_sign d
             \<lparr>p_id = None, p_username = su_username dto, p_email = su_email dto,
              p_role = Some (case su_role dto of None \<Rightarrow> UserRole_USER d | Some r \<Rightarrow> r),
              p_tmdb_key = su_tmdb_key dto\<rparr>)"
proof -
  let ?h = "bcrypt_hash d (su_password dto) salt"
  have "fst (signUp d salt fault w dto) = Inr (jwt_sign d (payload_of (new_user d ?h dto)))"
    using assms(1,2) by (simp add: signUp_saved)
  moreover have "payload_of (new_user d ?h dto) =
      \<lparr>p_id = None, p_username = su_username dto, p_email = su_email dto,
       p_role = Some (case su_role dto of None \<Rightarrow> UserRole_USER d | Some r \<Rightarrow> r),
       p_tmdb_key = su_tmdb_key dto\<rparr>"
    using role_new_user_valid [OF assms(3), of ?h]
    by (simp add: payload_of_def) (simp add: new_user_def)
  ultimately show ?thesis by simp
qed

theorem signUp_token_matches_input_witness:
  "\<not> taken empty_world alice_dto \<and> valid_role demo alice_dto
   \<and> fst (signUp demo ''s1'' None empty_world alice_dto)
       = Inr ''undefined.alice.a@x.com.USER.k1''
   \<and> \<not> taken empty_world (alice_dto\<lparr>su_role := Some ''ADMIN''\<rparr>)
   \<and> valid_role demo (alice_dto\<lparr>su_role := Some ''ADMIN''\<rparr>)
   \<and> fst (signUp demo ''s1'' None empty_world (alice_dto\<lparr>su_role := Some ''ADMIN''\<rparr>))
       = Inr ''undefined.alice.a@x.com.ADMIN.k1''"
proof -
  have t1: "\<not> taken empty_world alice_dto"
    by (simp add: taken_def empty_world_def)
  have v1: "valid_role demo alice_dto"
    by (simp add: valid_role_def alice_dto_def)
  have t2: "\<not> taken empty_world (alice_dto\<lparr>su_role := Some ''ADMIN''\<rparr>)"
    by (simp add: taken_def empty_world_def)
  have v2: "valid_role demo (alice_dto\<lparr>su_role := Some ''ADMIN''\<rparr>)"
    by (simp add: valid_role_def alice_dto_def demo_def)
  show ?thesis
    using t1 v1 t2 v2
      signUp_token_matches_input [OF refl t1 v1, of "''s1''"]
      signUp_token_matches_input [OF refl t2 v2, of "''s1''"]
    by (simp add: demo_def alice_dto_def show_id_def show_role_def)
qed

text \<open>
  C3. What \<open>signUp\<close> answers when the persistence layer fails. A failure is answered
  with the Conflict exception exactly when its code is the string 11000, and with the
  Internal exception otherwise: this holds for the uniqueness violation that \<open>save\<close>
  reports for a row with the same username or email, for any other failure, and for a
  second sign-up with the email of a sign-up that succeeded. So a uniqueness violation
  that the driver reports with the number 11000 is answered with Internal, not Conflict.
\<close>

theorem signUp_duplicate_conflict_needs_string_code:
  "(taken w dto \<longrightarrow>
      fst (signUp d salt None w dto)
        = (if dup_code d = JStr ''11000''
           then Inl (ConflictException ''Username already exists'')
           else Inl InternalServerErrorException))
   \<and> fst (signUp d salt (Some e) w dto)
        = (if code e = JStr ''11000''
           then Inl (ConflictException ''Username already exists'')
           else Inl InternalServerErrorException)
   \<and> (fst (signUp d salt fault w dto) = Inr t \<and> su_email dto2 = su_email dto \<longrightarrow>
        fst (signUp d salt2 None (snd (signUp d salt fault w dto)) dto2)
          = (if dup_code d = JStr ''11000''
             then Inl (ConflictException ''Username already exists'')
             else Inl InternalServerErrorException))"
proof (intro conjI impI)
  assume "taken w dto"
  then show "fst (signUp d salt None w dto)
      = (if dup_code d = JStr ''11000''
         then Inl (ConflictException ''Username already exists'')
         else Inl InternalServerErrorException)"
    by (simp add: signUp_duplicate)
next
  show "fst (signUp d salt (Some e) w dto)
      = (if code e = JStr ''11000''
         then Inl (ConflictException ''Username already exists'')
         else Inl InternalServerErrorException)"
    by (simp add: signUp_fault)
next
  assume a: "fst (signUp d salt fault w dto) = Inr t \<and> su_email dto2 = su_email dto"
  then have ok: "fault = None" "\<not> taken w dto"
    using signUp_success_iff [of d salt fault w dto] by auto
  let ?w' = "snd (signUp d salt fault w dto)"
  have "\<exists>r \<in> set (rows ?w'). email r = su_email dto"
    using ok by (simp add: signUp_saved email_new_user)
  then have "taken ?w' dto2"
    using a by (auto simp: taken_def)
  then show "fst (signUp d salt2 None ?w' dto2)
      = (if dup_code d = JStr ''11000''
         then Inl (ConflictException ''Username already exists'')
         else Inl InternalServerErrorException)"
    by (simp add: signUp_duplicate)
qed

theorem signUp_duplicate_conflict_needs_string_code_witness:
  "dup_code mongo = JNum 11000
   \<and> fst (signUp mongo ''s1'' None empty_world alice_dto)
       = Inr ''undefined.alice.a@x.com.USER.k1''
   \<and> fst (signUp mongo ''s2'' None (snd (signUp mongo ''s1'' None empty_world alice_dto))
            (alice_dto\<lparr>su_username := ''alice2''\<rparr>))
       = Inl InternalServerErrorException
   \<and> taken alice_world alice_dto
   \<and> fst (signUp mongo ''s1'' None alice_world alice_dto) = Inl InternalServerErrorException
   \<and> fst (signUp mongo ''s1'' (Some (Thrown (JNum 11000))) empty_world alice_dto)
       = Inl InternalServerErrorException"
proof -
  have c: "dup_code mongo = JNum 11000"
    by (simp add: mongo_def)
  have t: "taken alice_world alice_dto"
    by (simp add: taken_def alice_world_def alice_def alice_dto_def)
  have s: "fst (signUp mongo ''s1'' None empty_world alice_dto)
             = Inr ''undefined.alice.a@x.com.USER.k1''"
    by (simp add: signUp_saved taken_def empty_world_def payload_of_def new_user_def
        mongo_def demo_def alice_dto_def show_id_def show_role_def)
  show ?thesis
    using c t s
      signUp_duplicate_conflict_needs_string_code [where d = mongo and w = alice_world
        and dto = alice_dto and salt = "''s1''" and e = "Thrown (JNum 11000)" and fault = None
        and t = "''undefined.alice.a@x.com.USER.k1''" and ?dto2.0 = alice_dto
        and ?salt2.0 = "''s2''"]
      signUp_duplicate_conflict_needs_string_code [where d = mongo and w = empty_world
        and dto = alice_dto and salt = "''s1''" and e = "Thrown (JNum 11000)" and fault = None
        and t = "''undefined.alice.a@x.com.USER.k1''"
        and ?dto2.0 = "alice_dto\<lparr>su_username := ''alice2''\<rparr>" and ?salt2.0 = "''s2''"]
    by simp
qed

text \<open>
  The test of line 55 is a strict equality with a string: a failure whose code is the
  number 11000, and a uniqueness violation that a driver reports with another code, are
  answered with the Internal exception.
\<close>

lemma signUp_numeric_code_is_internal:
  "fst (signUp d salt (Some (Thrown (JNum 11000))) w dto) = Inl InternalServerErrorException"
  "dup_code d = JNum 11000 \<Longrightarrow> taken w dto \<Longrightarrow>
     fst (signUp d salt None w dto) = Inl InternalServerErrorException"
  "dup_code d = JStr ''23505'' \<Longrightarrow> taken w dto \<Longrightarrow>
     fst (signUp d salt None w dto) = Inl InternalServerErrorException"
  by (simp_all add: signUp_fault signUp_duplicate)

lemma calls_signUp:
  "calls (snd (signUp d salt fault w dto))
     = calls w @ [GenSalt, Hash, RepoCreate, JwtSign, RepoSave]"
  by (cases fault; cases "taken w dto")
     (simp_all add: signUp_fault signUp_saved signUp_duplicate)

lemma rows_signUp_failed:
  "fault \<noteq> None \<or> taken w dto \<Longrightarrow> rows (snd (signUp d salt fault w dto)) = rows w"
  by (cases fault; cases "taken w dto")
     (simp_all add: signUp_fault signUp_saved signUp_duplicate)

text \<open>
  C4. \<open>signUp\<close> calls its collaborators in the order: generate the salt, hash the
  password, create the record, sign the token, save the record. When the record is
  saved, the token returned is the one signed from the record as it was before the save:
  its payload has no identity, while the row the table holds has the identity assigned
  at the save.
\<close>

theorem signUp_steps_in_order:
  "calls (snd (signUp d salt fault w dto))
     = calls w @ [GenSalt, Hash, RepoCreate, JwtSign, RepoSave]
   \<and> (fault = None \<and> \<not> taken w dto \<longrightarrow>
        (let user = new_user d (bcrypt_hash d (su_password dto) salt) dto in
           fst (signUp d salt fault w dto) = Inr (jwt_sign d (payload_of user))
         \<and> p_id (payload_of user) = None
         \<and> rows (snd (signUp d salt fault w dto))
             = rows w @ [user\<lparr>uid := Some (next_id w)\<rparr>]))"
  by (simp add: calls_signUp signUp_saved Let_def payload_of_def uid_new_user)

theorem signUp_steps_in_order_witness:
  "\<not> taken alice_world (alice_dto\<lparr>su_username := ''bob'', su_email := ''b@x.com''\<rparr>)
   \<and> calls (snd (signUp demo ''s1'' None alice_world
        (alice_dto\<lparr>su_username := ''bob'', su_email := ''b@x.com''\<rparr>)))
       = [GenSalt, Hash, RepoCreate, JwtSign, RepoSave]
   \<and> fst (signUp demo ''s1'' None alice_world
        (alice_dto\<lparr>su_username := ''bob'', su_email := ''b@x.com''\<rparr>))
       = Inr ''undefined.bob.b@x.com.USER.k1''
   \<and> map uid (rows (snd (signUp demo ''s1'' None alice_world
        (alice_dto\<lparr>su_username := ''bob'', su_email := ''b@x.com''\<rparr>))))
       = [Some 0, Some 1]"
proof -
  have t: "\<not> taken alice_world (alice_dto\<lparr>su_username := ''bob'', su_email := ''b@x.com''\<rparr>)"
    by (simp add: taken_def alice_world_def alice_def alice_dto_def)
  show ?thesis
    using t
      signUp_steps_in_order [where d = demo and salt = "''s1''" and fault = None
        and w = alice_world
        and dto = "alice_dto\<lparr>su_username := ''bob'', su_email := ''b@x.com''\<rparr>"]
    by (simp add: Let_def payload_of_def new_user_def demo_def alice_dto_def alice_world_def
        alice_def show_id_def show_role_def)
qed

subsection \<open>updateUser\<close>

lemma updateUser_eq:
  "updateUser d w dto user =
     (Inr (jwt_sign d (payload_of user)),
      w\<lparr>rows := map (\<lambda>u. if uid u = uid user then apply_update d dto u else u) (rows w),
        calls := calls w @ [RepoUpdate, JwtSign]\<rparr>)"
  by (simp add: updateUser_def update_def createToken_def record_call_def Let_def)



subsection \<open>checkEmail\<close>

lemma checkEmail_eq:
  "checkEmail d w dto =
     ((\<exists>u \<in> set (rows w). email u = ce_email dto), w\<lparr>calls := calls w @ [RepoFindOne]\<rparr>)"
proof (cases "find (\<lambda>u. email u = ce_email dto) (rows w)")
  case None
  then have "\<not> (\<exists>u \<in> set (rows w). email u = ce_email dto)"
    by (simp add: find_None_iff)
  with None show ?thesis
    by (simp add: checkEmail_def findOne_email_def record_call_def)
next
  case (Some u)
  then have "\<exists>u \<in> set (rows w). email u = ce_email dto"
    using find_None_iff [of "\<lambda>u. email u = ce_email dto" "rows w"] by auto
  with Some show ?thesis
    by (simp add: checkEmail_def findOne_email_def record_call_def)
qed

text \<open>
  C6. \<open>checkEmail\<close> returns true exactly when the table holds a row with that email.
  It changes nothing but the list of calls made: the rows are the same. After a
  sign-up that succeeded, \<open>checkEmail\<close> of its email is true.
\<close>

theorem checkEmail_iff_registered:
  "fst (checkEmail d w dto) = (\<exists>u \<in> set (rows w). email u = ce_email dto)
   \<and> snd (checkEmail d w dto) = w\<lparr>calls := calls w @ [RepoFindOne]\<rparr>
   \<and> rows (snd (checkEmail d w dto)) = rows w
   \<and> (fst (signUp d salt fault w sdto) = Inr t \<and> ce_email dto = su_email sdto \<longrightarrow>
        fst (checkEmail d (snd (signUp d salt fault w sdto)) dto))"
proof (intro conjI impI)
  assume a: "fst (signUp d salt fault w sdto) = Inr t \<and> ce_email dto = su_email sdto"
  then have ok: "fault = None" "\<not> taken w sdto"
    using signUp_success_iff [of d salt fault w sdto] by auto
  then show "fst (checkEmail d (snd (signUp d salt fault w sdto)) dto)"
    using a by (simp add: checkEmail_eq signUp_saved email_new_user)
qed (simp_all add: checkEmail_eq)

theorem checkEmail_iff_registered_witness:
  "fst (signUp demo ''s1'' None empty_world alice_dto) = Inr ''undefined.alice.a@x.com.USER.k1''
   \<and> fst (checkEmail demo (snd (signUp demo ''s1'' None empty_world alice_dto))
          \<lparr>ce_email = ''a@x.com''\<rparr>)
   \<and> \<not> fst (checkEmail demo (snd (signUp demo ''s1'' None empty_world alice_dto))
          \<lparr>ce_email = ''b@x.com''\<rparr>)
   \<and> \<not> fst (checkEmail demo empty_world \<lparr>ce_email = ''a@x.com''\<rparr>)"
proof -
  have s: "signUp demo ''s1'' None empty_world alice_dto
             = (Inr ''undefined.alice.a@x.com.USER.k1'',
                alice_world\<lparr>calls := [GenSalt, Hash, RepoCreate, JwtSign, RepoSave]\<rparr>)"
    by (simp add: signUp_saved taken_def empty_world_def payload_of_def new_user_def
        demo_def alice_dto_def show_id_def show_role_def alice_world_def alice_def)
  show ?thesis
    using
      checkEmail_iff_registered [where d = demo and w = empty_world and salt = "''s1''"
        and fault = None and sdto = alice_dto and dto = "\<lparr>ce_email = ''a@x.com''\<rparr>"
        and t = "''undefined.alice.a@x.com.USER.k1''"]
      checkEmail_iff_registered [where d = demo
        and w = "snd (signUp demo ''s1'' None empty_world alice_dto)" and salt = "''s1''"
        and fault = None and sdto = alice_dto and dto = "\<lparr>ce_email = ''b@x.com''\<rparr>"
        and t = "''undefined.alice.a@x.com.USER.k1''"]
    by (simp add: s) (simp add: alice_dto_def alice_world_def alice_def empty_world_def)
qed

subsection \<open>refreshToken\<close>

text \<open>
  C7. \<open>refreshToken\<close> always returns a token, the one signed from the five fields of
  its input; the only collaborator it calls is the signer (no lookup in the table, no
  password comparison), and the table is unchanged.
\<close>

theorem refreshToken_signs_input_without_lookup:
  "refreshToken d w dto =
     (Inr (jwt_sign d \<lparr>p_id = rt_id dto, p_username = rt_username dto, p_email = rt_email dto,
                       p_role = rt_role dto, p_tmdb_key = rt_tmdb_key dto\<rparr>),
      w\<lparr>calls := calls w @ [JwtSign]\<rparr>)"
  by (simp add: refreshToken_def createToken_def payload_of_def as_User_def record_call_def)

theorem refreshToken_signs_input_without_lookup_witness:
  "refreshToken demo empty_world
      \<lparr>rt_id = Some 7, rt_username = ''mallory'', rt_email = ''m@x.com'',
       rt_role = Some ''ADMIN'', rt_tmdb_key = ''k9''\<rparr>
     = (Inr ''#iiiiiii.mallory.m@x.com.ADMIN.k9'', empty_world\<lparr>calls := [JwtSign]\<rparr>)"
  using refreshToken_signs_input_without_lookup [of demo empty_world
      "\<lparr>rt_id = Some 7, rt_username = ''mallory'', rt_email = ''m@x.com'',
        rt_role = Some ''ADMIN'', rt_tmdb_key = ''k9''\<rparr>"]
  by (simp add: demo_def empty_world_def show_id_def show_role_def eval_nat_numeral)

subsection \<open>createToken\<close>

lemma signIn_token_of_row:
  "fst (signIn d w dto) = Inr t \<Longrightarrow> \<exists>u \<in> set (rows w). t = jwt_sign d (payload_of u)"
  by (auto simp add: signIn_cases split: option.splits if_splits
      dest: find_Some_iff [THEN iffD1] intro: nth_mem)

lemma signUp_token:
  "fst (signUp d salt fault w dto) = Inr t \<Longrightarrow>
   t = jwt_sign d (payload_of (new_user d (bcrypt_hash d (su_password dto) salt) dto))"
  by (cases fault; cases "taken w dto")
     (simp_all add: signUp_fault signUp_saved signUp_duplicate split: if_splits)

text \<open>
  C8. The payload \<open>createToken\<close> signs is made of the identity, username, email, role
  and key of the user, and a user that differs only in the password gets the same token.
  Every token that \<open>signUp\<close>, \<open>signIn\<close>, \<open>refreshToken\<close> and \<open>updateUser\<close>
  return is a token of \<open>createToken\<close>: for the new record, for a row of the table,
  for the input, for the user passed in.
\<close>

theorem createToken_payload_five_fields:
  "fst (createToken d user w)
     = jwt_sign d \<lparr>p_id = uid user, p_username = username user, p_email = email user,
                   p_role = role user, p_tmdb_key = tmdb_key user\<rparr>
   \<and> fst (createToken d (user\<lparr>password := x\<rparr>) w) = fst (createToken d user w)
   \<and> (fst (signUp d salt fault w sdto) = Inr t \<longrightarrow>
        t = fst (createToken d (new_user d (bcrypt_hash d (su_password sdto) salt) sdto) w))
   \<and> (fst (signIn d w idto) = Inr t \<longrightarrow> (\<exists>u \<in> set (rows w). t = fst (createToken d u w)))
   \<and> fst (refreshToken d w rdto) = Inr (fst (createToken d (as_User rdto) w))
   \<and> fst (updateUser d w udto user) = Inr (fst (createToken d user w))"
  using signIn_token_of_row [of d w idto t] signUp_token [of d salt fault w sdto t]
  by (simp add: fst_createToken updateUser_eq refreshToken_def createToken_def payload_of_def)

theorem createToken_payload_five_fields_witness:
  "fst (createToken demo alice empty_world) = ''#.alice.a@x.com.USER.k1''
   \<and> fst (createToken demo (alice\<lparr>password := ''other''\<rparr>) empty_world)
       = ''#.alice.a@x.com.USER.k1''
   \<and> fst (signUp demo ''s1'' None empty_world alice_dto) = Inr ''undefined.alice.a@x.com.USER.k1''
   \<and> fst (signIn demo alice_world \<lparr>si_email = ''a@x.com'', si_password = ''p@ss1234''\<rparr>)
       = Inr ''#.alice.a@x.com.USER.k1''"
proof -
  have s: "fst (signUp demo ''s1'' None empty_world alice_dto)
             = Inr ''undefined.alice.a@x.com.USER.k1''"
    by (simp add: signUp_saved taken_def empty_world_def payload_of_def new_user_def
        demo_def alice_dto_def show_id_def show_role_def)
  have i: "fst (signIn demo alice_world \<lparr>si_email = ''a@x.com'', si_password = ''p@ss1234''\<rparr>)
             = Inr ''#.alice.a@x.com.USER.k1''"
    by (simp add: signIn_cases demo_def alice_world_def alice_def payload_of_def
        show_id_def show_role_def)
  show ?thesis
    using s i
      createToken_payload_five_fields [where d = demo and user = alice and w = empty_world
        and x = "''other''" and salt = "''s1''" and fault = None and sdto = alice_dto
        and t = "''undefined.alice.a@x.com.USER.k1''"]
    by (simp add: demo_def alice_def show_id_def show_role_def)
qed

subsection \<open>getUser\<close>

text \<open>
  C10. When the lookup of \<open>getUser\<close> finds no record, \<open>getUser\<close> fails with the
  NotFound exception that quotes the username of its argument; when it finds one,
  \<open>getUser\<close> returns its argument, whatever the record found is.
\<close>

theorem getUser_not_found_or_argument:
  "(findOne_where_user d (rows w) user = None \<longrightarrow>
      fst (getUser d w user)
        = Inl (NotFoundException
            (''User '' @ [CHR 0x22] @ username user @ [CHR 0x22] @ '' not found!'')))
   \<and> (findOne_where_user d (rows w) user \<noteq> None \<longrightarrow> fst (getUser d w user) = Inr user)"
  by (auto simp add: getUser_def Let_def)

theorem getUser_not_found_or_argument_witness:
  "findOne_where_user demo (rows alice_world) (alice\<lparr>email := ''stale@x.com''\<rparr>) = Some alice
   \<and> fst (getUser demo alice_world (alice\<lparr>email := ''stale@x.com''\<rparr>))
       = Inr (alice\<lparr>email := ''stale@x.com''\<rparr>)
   \<and> findOne_where_user demo (rows alice_world) (alice\<lparr>username := ''bob''\<rparr>) = None
   \<and> fst (getUser demo alice_world (alice\<lparr>username := ''bob''\<rparr>))
       = Inl (NotFoundException (''User '' @ [CHR 0x22] @ ''bob'' @ [CHR 0x22] @ '' not found!''))"
  using
    getUser_not_found_or_argument [of demo alice_world "alice\<lparr>email := ''stale@x.com''\<rparr>"]
    getUser_not_found_or_argument [of demo alice_world "alice\<lparr>username := ''bob''\<rparr>"]
  by (simp add: demo_def alice_world_def alice_def)

subsection \<open>Stored passwords\<close>

lemma rows_signIn: "rows (snd (signIn d w dto)) = rows w"
  by (simp add: signIn_cases rows_record_call split: option.splits)

lemma rows_getUser: "rows (snd (getUser d w user)) = rows w"
  by (simp add: getUser_def Let_def rows_record_call split: option.splits)

lemma hashed_append: "hashed d (us @ vs) \<longleftrightarrow> hashed d us \<and> hashed d vs"
  by (auto simp add: hashed_def)

lemma hashed_signUp: "hashed d (rows w) \<Longrightarrow> hashed d (rows (snd (signUp d salt fault w dto)))"
proof (cases "fault = None \<and> \<not> taken w dto")
  case True
  assume "hashed d (rows w)"
  moreover have "hashed d [(new_user d (bcrypt_hash d (su_password dto) salt) dto)
                             \<lparr>uid := Some (next_id w)\<rparr>]"
    unfolding hashed_def by (auto simp add: password_new_user)
  ultimately show ?thesis
    using True by (simp add: signUp_saved hashed_append)
next
  case False
  assume "hashed d (rows w)"
  with False show ?thesis
    using rows_signUp_failed [of fault w dto d salt] by auto
qed

lemma password_apply_update:
  "up_password dto = None \<Longrightarrow> password (apply_update d dto u) = password u"
  by (simp add: apply_update_def)

lemma passwords_updateUser:
  "up_password dto = None \<Longrightarrow>
   map password (rows (snd (updateUser d w dto user))) = map password (rows w)"
  by (simp add: updateUser_eq password_apply_update)

lemma hashed_map:
  "hashed d us \<longleftrightarrow> (\<forall>h \<in> set (map password us). \<exists>pw salt. h = bcrypt_hash d pw salt)"
  by (simp add: hashed_def)

lemma hashed_passwords:
  assumes "map password us = map password vs"
  shows "hashed d us = hashed d vs"
  by (simp only: hashed_map assms)

lemma hashed_alice: "hashed demo (rows alice_world)"
proof -
  have "password alice = bcrypt_hash demo ''p@ss1234'' ''s1''"
    by (simp add: alice_def demo_def)
  then show ?thesis
    unfolding hashed_def by (auto simp add: alice_world_def)
qed

text \<open>
  What the operations keep of the stored passwords: the row a sign-up adds stores the
  hasher's output; \<open>signIn\<close>, \<open>refreshToken\<close>, \<open>checkEmail\<close> and \<open>getUser\<close> leave
  the rows as they are; an update that carries no password leaves every stored password
  as it is.
\<close>

lemma stored_passwords_kept:
  "(fault = None \<and> \<not> taken w sdto \<longrightarrow>
      (\<exists>u. rows (snd (signUp d salt fault w sdto)) = rows w @ [u]
           \<and> password u = bcrypt_hash d (su_password sdto) salt))
   \<and> (hashed d (rows w) \<longrightarrow> hashed d (rows (snd (signUp d salt fault w sdto))))
   \<and> rows (snd (signIn d w idto)) = rows w
   \<and> rows (snd (refreshToken d w rdto)) = rows w
   \<and> rows (snd (checkEmail d w cdto)) = rows w
   \<and> rows (snd (getUser d w user)) = rows w
   \<and> (up_password udto = None \<longrightarrow>
        map password (rows (snd (updateUser d w udto user))) = map password (rows w))
   \<and> (up_password udto = None \<and> hashed d (rows w) \<longrightarrow>
        hashed d (rows (snd (updateUser d w udto user))))"
proof (intro conjI impI)
  assume "fault = None \<and> \<not> taken w sdto"
  then show "\<exists>u. rows (snd (signUp d salt fault w sdto)) = rows w @ [u]
      \<and> password u = bcrypt_hash d (su_password sdto) salt"
    by (simp add: signUp_saved password_new_user)
next
  assume "hashed d (rows w)"
  then show "hashed d (rows (snd (signUp d salt fault w sdto)))"
    by (rule hashed_signUp)
next
  show "rows (snd (signIn d w idto)) = rows w"
    by (rule rows_signIn)
next
  show "rows (snd (refreshToken d w rdto)) = rows w"
    by (simp add: refreshToken_def createToken_def rows_record_call)
next
  show "rows (snd (checkEmail d w cdto)) = rows w"
    by (simp add: checkEmail_eq)
next
  show "rows (snd (getUser d w user)) = rows w"
    by (rule rows_getUser)
next
  assume "up_password udto = None"
  then show "map password (rows (snd (updateUser d w udto user))) = map password (rows w)"
    by (rule passwords_updateUser)
next
  assume "up_password udto = None \<and> hashed d (rows w)"
  then show "hashed d (rows (snd (updateUser d w udto user)))"
    using passwords_updateUser [of udto d w user] hashed_passwords by blast
qed

lemma uid_apply_update: "uid (apply_update d dto u) = uid u"
  by (simp add: apply_update_def)

lemma password_apply_update_Some:
  "up_password dto = Some pw \<Longrightarrow> password (apply_update d dto u) = pw"
  by (simp add: apply_update_def)

text \<open>
  C9. The row a sign-up adds stores the hasher's output for the password and the salt.
  An update that carries a password is written by \<open>updateUser\<close> to every row of the
  user's identity as it is: the stored password is the value supplied, and
  \<open>updateUser\<close> calls the repository and the signer only, never the hasher.
\<close>

theorem updateUser_stores_password_unhashed:
  "(fault = None \<and> \<not> taken w sdto \<longrightarrow>
      (\<exists>u. rows (snd (signUp d salt fault w sdto)) = rows w @ [u]
           \<and> password u = bcrypt_hash d (su_password sdto) salt))
   \<and> (up_password udto = Some pw \<longrightarrow>
        map password (rows (snd (updateUser d w udto user)))
          = map (\<lambda>u. if uid u = uid user then pw else password u) (rows w))
   \<and> calls (snd (updateUser d w udto user)) = calls w @ [RepoUpdate, JwtSign]"
proof (intro conjI impI)
  assume "fault = None \<and> \<not> taken w sdto"
  then show "\<exists>u. rows (snd (signUp d salt fault w sdto)) = rows w @ [u]
      \<and> password u = bcrypt_hash d (su_password sdto) salt"
    by (simp add: signUp_saved password_new_user)
next
  assume "up_password udto = Some pw"
  then show "map password (rows (snd (updateUser d w udto user)))
      = map (\<lambda>u. if uid u = uid user then pw else password u) (rows w)"
    by (simp add: updateUser_eq password_apply_update_Some)
next
  show "calls (snd (updateUser d w udto user)) = calls w @ [RepoUpdate, JwtSign]"
    by (simp add: updateUser_eq)
qed

theorem updateUser_stores_password_unhashed_witness:
  "rows (snd (signUp demo ''s1'' None empty_world alice_dto)) = [alice]
   \<and> password alice = bcrypt_hash demo ''p@ss1234'' ''s1''
   \<and> hashed demo (rows alice_world)
   \<and> up_password plaintext_update = Some ''plain''
   \<and> map password (rows (snd (updateUser demo alice_world plaintext_update alice))) = [''plain'']
   \<and> \<not> hashed demo (rows (snd (updateUser demo alice_world plaintext_update alice)))
   \<and> calls (snd (updateUser demo alice_world plaintext_update alice)) = [RepoUpdate, JwtSign]
   \<and> fst (signIn demo (snd (updateUser demo alice_world plaintext_update alice))
          \<lparr>si_email = ''a@x.com'', si_password = ''plain''\<rparr>)
       = Inl (UnauthorizedException ''Please check your login credentials'')"
proof -
  have t: "\<not> taken empty_world alice_dto"
    by (simp add: taken_def empty_world_def)
  have r: "rows (snd (signUp demo ''s1'' None empty_world alice_dto)) = [alice]"
    by (simp add: signUp_saved t) (simp add: new_user_def demo_def alice_dto_def alice_def
        empty_world_def)
  have p: "password alice = bcrypt_hash demo ''p@ss1234'' ''s1''"
    by (simp add: alice_def demo_def)
  have n: "up_password plaintext_update = Some ''plain''"
    by (simp add: plaintext_update_def)
  have u: "rows (snd (updateUser demo alice_world plaintext_update alice))
             = [alice\<lparr>password := ''plain''\<rparr>]"
    by (simp add: updateUser_eq alice_world_def apply_update_def plaintext_update_def)
       (simp add: alice_def demo_def)
  have h: "\<not> hashed demo [alice\<lparr>password := ''plain''\<rparr>]"
    by (simp add: hashed_def demo_def)
  have i: "fst (signIn demo (snd (updateUser demo alice_world plaintext_update alice))
          \<lparr>si_email = ''a@x.com'', si_password = ''plain''\<rparr>)
       = Inl (UnauthorizedException ''Please check your login credentials'')"
    by (simp add: signIn_cases u) (simp add: alice_def demo_def)
  show ?thesis
    using r p n u h i hashed_alice
      updateUser_stores_password_unhashed [where d = demo and w = alice_world
        and udto = plaintext_update and user = alice and pw = "''plain''" and fault = None
        and sdto = alice_dto and salt = "''s1''"]
    by (simp add: alice_world_def)
qed

end
